theory Spec2Isabelle
  imports Main "HOL-Library.Word" "HOL-Library.AList" "HOL-Library.Multiset"
begin

section \<open>The customer service of main.go\<close>

text \<open>
  The program is an HTTP service with five handlers over one global table,
  \<^verbatim>\<open>var customers = map[uint64]Customer{...}\<close>. The handlers are embedded as functions
  that take the table and the request and return the response (and the new table, for
  the three handlers that write to it). The handlers are modelled one request at a time;
  the interleaving of concurrent requests is outside this development.
\<close>

subsection \<open>Data\<close>

type_synonym uint64 = "64 word"

text \<open>A Go \<^verbatim>\<open>error\<close> is represented by the text its \<^verbatim>\<open>Error()\<close> method returns.\<close>

type_synonym error = string

text \<open>
  \<^verbatim>\<open>type Customer struct\<close> (main.go, lines 24-31). The field \<^verbatim>\<open>Id\<close> is written
  \<open>Id'\<close>, since \<open>Id\<close> is the identity relation of HOL.
\<close>

record Customer =
  Id' :: uint64
  Name :: string
  Role :: string
  Email :: string
  Phone :: string
  IsContacted :: bool

text \<open>
  The table. Go's map is modelled as an association list whose keys are distinct:
  \<^verbatim>\<open>customers[k]\<close> is \<open>map_of\<close>, the assignment \<^verbatim>\<open>customers[k] = v\<close> is
  \<open>AList.update\<close>, \<^verbatim>\<open>delete(customers, k)\<close> is \<open>AList.delete\<close>, and
  \<^verbatim>\<open>range customers\<close> walks the list. Go leaves the order of \<^verbatim>\<open>range\<close> over a map
  unspecified; the list fixes one order, and the statements below about a list of
  customers do not depend on it (they speak of the multiset of its elements, or of the
  list that \<open>getCustomerSlices\<close> returns for the table, whatever its order).
\<close>

type_synonym Store = "(uint64 \<times> Customer) list"

text \<open>The initial value of the global variable (main.go, lines 44-69).\<close>

definition customers :: Store where
  "customers =
    [(1, \<lparr>Id' = 1, Name = ''John Doe'', Role = ''Admin'',
          Email = ''john.doe@gmail.com'', Phone = ''1234567890'', IsContacted = False\<rparr>),
     (2, \<lparr>Id' = 2, Name = ''Jane Doe'', Role = ''User'',
          Email = ''jane.doe@gmail.com'', Phone = ''0987654321'', IsContacted = False\<rparr>),
     (3, \<lparr>Id' = 3, Name = ''John Smith'', Role = ''User'',
          Email = ''john.smith@gmail.com'', Phone = ''1234567890'', IsContacted = False\<rparr>)]"

subsection \<open>The library functions the handlers call\<close>

text \<open>
  Two functions of Go's standard library are taken as parameters, since their
  definitions are not part of the program: \<^verbatim>\<open>json.Unmarshal\<close> into a \<^verbatim>\<open>Customer\<close>
  (from the bytes of the body to an error or the decoded record) and
  \<^verbatim>\<open>strconv.Quote\<close> (used by the text of a \<^verbatim>\<open>strconv.NumError\<close>).
\<close>

record golib =
  json_Unmarshal :: "string \<Rightarrow> error + Customer"
  strconv_Quote :: "string \<Rightarrow> string"

text \<open>
  \<^verbatim>\<open>strconv.ParseUint(s, 10, 64)\<close>, as the handlers call it: the empty string and
  any byte that is not a decimal digit are a syntax error (no sign, no prefix and no
  underscore is accepted at base 10), a value above \<open>2^64 - 1\<close> is a range error.
  The loop reads the bytes from the left and stops at the first error. The accumulator
  is the \<^verbatim>\<open>uint64\<close> of the library's loop, with its two overflow tests.
\<close>

definition cutoff :: uint64 where
  "cutoff = (- 1) div 10 + 1"

definition syntaxError :: "golib \<Rightarrow> string \<Rightarrow> error" where
  "syntaxError E s = ''strconv.ParseUint: parsing '' @ strconv_Quote E s @ '': invalid syntax''"

definition rangeError :: "golib \<Rightarrow> string \<Rightarrow> error" where
  "rangeError E s = ''strconv.ParseUint: parsing '' @ strconv_Quote E s @ '': value out of range''"

fun parseDigits :: "golib \<Rightarrow> string \<Rightarrow> uint64 \<Rightarrow> string \<Rightarrow> error + uint64" where
  "parseDigits E s0 n [] = Inr n"
| "parseDigits E s0 n (c # cs) =
    (if 48 \<le> (of_char c :: nat) \<and> (of_char c :: nat) \<le> 57 then
       (if n \<ge> cutoff then Inl (rangeError E s0)
        else
          (let n1 = n * 10 + of_nat (of_char c - 48) in
           if n1 < n * 10 then Inl (rangeError E s0)
           else parseDigits E s0 n1 cs))
     else Inl (syntaxError E s0))"

definition ParseUint :: "golib \<Rightarrow> string \<Rightarrow> error + uint64" where
  "ParseUint E s = (if s = [] then Inl (syntaxError E s) else parseDigits E s 0 s)"

subsection \<open>JSON values and the encoding of a Customer\<close>

text \<open>
  What \<^verbatim>\<open>json.NewEncoder(w).Encode(v)\<close> writes is kept as a JSON value, not as
  text. The handlers encode three kinds of value: a string, a \<^verbatim>\<open>Customer\<close> and a
  slice of them.
\<close>

datatype json =
  JNumber nat
| JString string
| JBool bool
| JObject "(string \<times> json) list"
| JArray "json list"

datatype fieldValue = VUint uint64 | VString string | VBool bool

text \<open>
  The empty values of \<^verbatim>\<open>encoding/json\<close> for the three field types of the struct:
  0, the empty string and false.
\<close>

fun isEmptyValue :: "fieldValue \<Rightarrow> bool" where
  "isEmptyValue (VUint n) = (n = 0)"
| "isEmptyValue (VString s) = (s = [])"
| "isEmptyValue (VBool b) = (\<not> b)"

fun encodeValue :: "fieldValue \<Rightarrow> json" where
  "encodeValue (VUint n) = JNumber (unat n)"
| "encodeValue (VString s) = JString s"
| "encodeValue (VBool b) = JBool b"

text \<open>
  The fields of the struct in their order, each with the name and the
  \<^verbatim>\<open>omitempty\<close> option of its tag (main.go, lines 25-30).
\<close>

definition CustomerFields :: "Customer \<Rightarrow> (string \<times> bool \<times> fieldValue) list" where
  "CustomerFields c =
    [(''id'', True, VUint (Id' c)),
     (''name'', True, VString (Name c)),
     (''role'', True, VString (Role c)),
     (''email'', True, VString (Email c)),
     (''phone'', True, VString (Phone c)),
     (''contacted'', True, VBool (IsContacted c))]"

text \<open>A field is left out when its tag has \<^verbatim>\<open>omitempty\<close> and its value is empty.\<close>

definition encodeFields :: "(string \<times> bool \<times> fieldValue) list \<Rightarrow> (string \<times> json) list" where
  "encodeFields fs =
    map (\<lambda>(name, omitEmpty, v). (name, encodeValue v))
      (filter (\<lambda>(name, omitEmpty, v). \<not> (omitEmpty \<and> isEmptyValue v)) fs)"

definition encodeCustomer :: "Customer \<Rightarrow> json" where
  "encodeCustomer c = JObject (encodeFields (CustomerFields c))"

definition encodeCustomers :: "Customer list \<Rightarrow> json" where
  "encodeCustomers cs = JArray (map encodeCustomer cs)"

subsection \<open>Requests and responses\<close>

text \<open>
  Of a request the handlers read the path variables (\<^verbatim>\<open>mux.Vars(r)\<close>) and the body
  (\<^verbatim>\<open>io.ReadAll(r.Body)\<close>: an error or the bytes).
\<close>

record Request =
  Vars :: "string \<rightharpoonup> string"
  Body :: "error + string"

text \<open>
  A response records the headers set, the status code and the values encoded into the
  body, in order. A fresh one has status 200 and an empty body, as the
  \<^verbatim>\<open>httptest.ResponseRecorder\<close> of main\_test.go.
\<close>

record Response =
  Header :: "(string \<times> string) list"
  Code :: nat
  Written :: "json list"

definition NewRecorder :: Response where
  "NewRecorder = \<lparr>Header = [], Code = 200, Written = []\<rparr>"

definition Header_Set :: "string \<Rightarrow> string \<Rightarrow> Response \<Rightarrow> Response" where
  "Header_Set k v w = w\<lparr>Header := AList.update k v (Header w)\<rparr>"

definition WriteHeader :: "nat \<Rightarrow> Response \<Rightarrow> Response" where
  "WriteHeader code w = w\<lparr>Code := code\<rparr>"

definition Encode :: "json \<Rightarrow> Response \<Rightarrow> Response" where
  "Encode v w = w\<lparr>Written := Written w @ [v]\<rparr>"

abbreviation StatusOK :: nat where "StatusOK \<equiv> 200"
abbreviation StatusBadRequest :: nat where "StatusBadRequest \<equiv> 400"
abbreviation StatusNotFound :: nat where "StatusNotFound \<equiv> 404"

text \<open>The first statement of every handler.\<close>

definition jsonResponse :: Response where
  "jsonResponse = Header_Set ''Content-Type'' ''application/json'' NewRecorder"

subsection \<open>The functions of main.go\<close>

definition readCustomerFromRequestBody :: "golib \<Rightarrow> Request \<Rightarrow> error + Customer" where
  "readCustomerFromRequestBody E r =
    (case Body r of
       Inl err \<Rightarrow> Inl err
     | Inr body \<Rightarrow>
         (case json_Unmarshal E body of
            Inl err \<Rightarrow> Inl err
          | Inr customer \<Rightarrow> Inr customer))"

definition getCustomerSlices :: "Store \<Rightarrow> Customer list" where
  "getCustomerSlices s = map snd s"




definition updateCustomer :: "golib \<Rightarrow> Store \<Rightarrow> Request \<Rightarrow> Store \<times> Response" where
  "updateCustomer E s r =
    (case Vars r ''id'' of
       Some givenId \<Rightarrow>
         (case ParseUint E givenId of
            Inl err \<Rightarrow>
              (s, Encode (JString (''Failed to parse the given id: '' @ givenId @ ''. '' @ err))
                    (WriteHeader StatusBadRequest jsonResponse))
          | Inr id' \<Rightarrow>
              (case readCustomerFromRequestBody E r of
                 Inl err \<Rightarrow>
                   (s, Encode (JString
                          (''Failed to read customer data from the request body. '' @ err))
                         (WriteHeader StatusBadRequest jsonResponse))
               | Inr customer \<Rightarrow>
                   if Id' customer \<noteq> id' then
                     (s, Encode (JString
                            ''Customer id in the request body does not match the id in the URL path.'')
                           (WriteHeader StatusBadRequest jsonResponse))
                   else
                     (case map_of s id' of
                        Some old \<Rightarrow>
                          (let s' = AList.update id' customer s
                           in (s', Encode (encodeCustomers (getCustomerSlices s'))
                                     (WriteHeader StatusOK jsonResponse)))
                      | None \<Rightarrow>
                          (s, Encode (JString (''Customer with id: '' @ givenId @ '' not found.''))
                                (WriteHeader StatusNotFound jsonResponse)))))
     | None \<Rightarrow> (s, WriteHeader StatusBadRequest jsonResponse))"


subsection \<open>The routes of main and sequences of requests\<close>




subsection \<open>The invariant of the table\<close>


subsection \<open>Example inputs\<close>

text \<open>
  An instance of the two library functions, for the examples below: it decodes three
  fixed bodies as \<^verbatim>\<open>json.Unmarshal\<close> does and rejects every other one, and it quotes a
  string of plain printable characters as \<^verbatim>\<open>strconv.Quote\<close> does.
\<close>

definition exampleUnmarshal :: "string \<Rightarrow> error + Customer" where
  \<open>exampleUnmarshal b =
    (if b = ''{"id":4,"name":"Gilang"}'' then
       Inr \<lparr>Id' = 4, Name = ''Gilang'', Role = [], Email = [], Phone = [], IsContacted = False\<rparr>
     else if b = ''{"id":3,"name":"Gilang Kusuma","contacted":true}'' then
       Inr \<lparr>Id' = 3, Name = ''Gilang Kusuma'', Role = [], Email = [], Phone = [],
            IsContacted = True\<rparr>
     else if b = ''{"name":"Nobody"}'' then
       Inr \<lparr>Id' = 0, Name = ''Nobody'', Role = [], Email = [], Phone = [], IsContacted = False\<rparr>
     else Inl ''unexpected end of JSON input'')\<close>

definition exampleLib :: golib where
  "exampleLib =
    \<lparr>json_Unmarshal = exampleUnmarshal,
     strconv_Quote = (\<lambda>s. [CHR 0x22] @ s @ [CHR 0x22])\<rparr>"

section \<open>Properties\<close>

subsection \<open>Responses and the operations on the table\<close>

lemma Code_Encode [simp]: "Code (Encode v w) = Code w"
  by (simp add: Encode_def)

lemma Code_WriteHeader [simp]: "Code (WriteHeader n w) = n"
  by (simp add: WriteHeader_def)

lemma Written_Encode [simp]: "Written (Encode v w) = Written w @ [v]"
  by (simp add: Encode_def)

lemma Written_WriteHeader [simp]: "Written (WriteHeader n w) = Written w"
  by (simp add: WriteHeader_def)

lemma Written_jsonResponse [simp]: "Written jsonResponse = []"
  by (simp add: jsonResponse_def Header_Set_def NewRecorder_def)















lemma Written_handler [simp]: "Written (Encode v (WriteHeader n jsonResponse)) = [v]"
  by simp

subsection \<open>Creating a customer\<close>







subsection \<open>Updating a customer\<close>




text \<open>
  Claim C4. When the path id of a \<^verbatim>\<open>PUT /customers/{id}\<close> request parses and the
  body decodes into a customer whose id is another one, \<open>updateCustomer\<close> answers 400
  with the message that the two ids do not match and returns the table as it was. This
  holds for every table, whether the path id is one of its keys or not: the comparison
  of the two ids comes before the lookup.
\<close>

theorem updateCustomer_mismatch:
  assumes "Vars r ''id'' = Some givenId"
    and "ParseUint E givenId = Inr k"
    and "readCustomerFromRequestBody E r = Inr c"
    and "Id' c \<noteq> k"
  shows "case updateCustomer E s r of
           (s', w) \<Rightarrow>
             s' = s \<and>
             Code w = StatusBadRequest \<and>
             Written w =
               [JString ''Customer id in the request body does not match the id in the URL path.'']"
  using assms by (simp add: updateCustomer_def)

lemma ParseUint_9: "ParseUint E ''9'' = Inr 9"
  by (simp add: ParseUint_def cutoff_def word_le_nat_alt)

theorem updateCustomer_mismatch_witness:
  \<open>ParseUint exampleLib ''9'' = Inr 9 \<and>
    readCustomerFromRequestBody exampleLib
      \<lparr>Vars = [''id'' \<mapsto> ''9''], Body = Inr ''{"id":4,"name":"Gilang"}''\<rparr> =
      Inr \<lparr>Id' = 4, Name = ''Gilang'', Role = [], Email = [], Phone = [], IsContacted = False\<rparr> \<and>
    map_of customers 9 = None \<and>
    (case updateCustomer exampleLib customers
        \<lparr>Vars = [''id'' \<mapsto> ''9''], Body = Inr ''{"id":4,"name":"Gilang"}''\<rparr> of
       (s', w) \<Rightarrow>
         s' = customers \<and>
         Code w = StatusBadRequest \<and>
         Written w =
           [JString ''Customer id in the request body does not match the id in the URL path.''])\<close>
proof -
  let ?r = \<open>\<lparr>Vars = [''id'' \<mapsto> ''9''], Body = Inr ''{"id":4,"name":"Gilang"}''\<rparr>\<close>
  let ?c = "\<lparr>Id' = 4, Name = ''Gilang'', Role = [], Email = [], Phone = [], IsContacted = False\<rparr>"
  have var: "Vars ?r ''id'' = Some ''9''"
    by simp
  have parse: "ParseUint exampleLib ''9'' = Inr 9"
    by (rule ParseUint_9)
  have rd: "readCustomerFromRequestBody exampleLib ?r = Inr ?c"
    by (simp add: readCustomerFromRequestBody_def exampleLib_def exampleUnmarshal_def)
  have differ: "Id' ?c \<noteq> 9"
    by simp
  have absent: "map_of customers 9 = None"
    by (simp add: customers_def)
  show ?thesis
    using updateCustomer_mismatch [OF var parse rd differ, of customers] parse rd absent
    by simp
qed

subsection \<open>Reading one customer\<close>








end
